theory Spec2Isabelle
  imports Complex_Main
begin

section \<open>Numbers, errors and dictionaries\<close>

text \<open>
  The price engine of \<^verbatim>\<open>webapp/price_scraper.py\<close> computes with Python floats.
  Here a price is a rational number and every arithmetic operation is exact: the
  model is the decimal arithmetic that the engine approximates, and the rounding
  error of binary floating point is outside of it. Python's \<^verbatim>\<open>round(x, n)\<close>
  rounds to \<open>n\<close> decimal places, a tie going to the even neighbour.
\<close>

datatype error =
    KeyError string
  | ZeroDivisionError
  | StatisticsError
  | ValueError
  | SourceError

definition round_half_even :: "rat \<Rightarrow> int" where
  "round_half_even x =
     (let f = \<lfloor>x\<rfloor>; d = x - of_int f
      in if d < 1 / 2 then f
         else if 1 / 2 < d then f + 1
         else if even f then f else f + 1)"

text \<open>\<^verbatim>\<open>round(x, n)\<close> for a float \<open>x\<close> and \<open>n \<ge> 0\<close>.\<close>

definition round_py :: "rat \<Rightarrow> nat \<Rightarrow> rat" where
  "round_py x n = of_int (round_half_even (x * 10 ^ n)) / 10 ^ n"

text \<open>\<^verbatim>\<open>a / b\<close>: true division raises on a zero divisor.\<close>

definition truediv :: "rat \<Rightarrow> rat \<Rightarrow> error + rat" where
  "truediv a b = (if b = 0 then Inl ZeroDivisionError else Inr (a / b))"

text \<open>
  A dict with string keys is an association list. \<^verbatim>\<open>d[k]\<close> raises KeyError on a
  missing key, \<^verbatim>\<open>d.get(k, default)\<close> does not.
\<close>

definition dict_item :: "(string \<times> 'v) list \<Rightarrow> string \<Rightarrow> error + 'v" where
  "dict_item d k = (case map_of d k of None \<Rightarrow> Inl (KeyError k) | Some v \<Rightarrow> Inr v)"

definition dict_get :: "(string \<times> 'v) list \<Rightarrow> string \<Rightarrow> 'v \<Rightarrow> 'v" where
  "dict_get d k dflt = (case map_of d k of None \<Rightarrow> dflt | Some v \<Rightarrow> v)"

section \<open>Fee model\<close>

definition get_platform_fees :: "(string \<times> (string \<times> rat) list) list" where
  "get_platform_fees =
     [(''poshmark'',
         [(''fee_under_15'', 2.95), (''fee_percent'', 0.20), (''threshold'', 15.00)]),
      (''depop'',
         [(''fee_percent'', 0.10), (''payment_fee'', 0.029), (''payment_flat'', 0.30)]),
      (''mercari'', [(''fee_percent'', 0.10)]),
      (''ebay'', [(''fee_percent'', 0.1315)]),
      (''xiaohongshu'', [(''fee_percent'', 0.05)])]"

text \<open>
  The local \<^verbatim>\<open>total_fee\<close> of \<^verbatim>\<open>calculate_net_profit\<close>: the table lookup and the
  \<^verbatim>\<open>if/elif/else\<close> chain on the platform name.
\<close>

definition total_fee :: "rat \<Rightarrow> string \<Rightarrow> error + rat" where
  "total_fee sale_price platform =
     (let fees = dict_get get_platform_fees platform [(''fee_percent'', 0.10)]
      in if platform = ''poshmark'' then
           (case dict_item fees ''threshold'' of
              Inl e \<Rightarrow> Inl e
            | Inr threshold \<Rightarrow>
                if sale_price < threshold then dict_item fees ''fee_under_15''
                else (case dict_item fees ''fee_percent'' of
                        Inl e \<Rightarrow> Inl e
                      | Inr fee_percent \<Rightarrow> Inr (sale_price * fee_percent)))
         else if platform = ''depop'' then
           (case dict_item fees ''fee_percent'' of
              Inl e \<Rightarrow> Inl e
            | Inr fee_percent \<Rightarrow>
                (case dict_item fees ''payment_fee'' of
                   Inl e \<Rightarrow> Inl e
                 | Inr payment_fee \<Rightarrow>
                     (case dict_item fees ''payment_flat'' of
                        Inl e \<Rightarrow> Inl e
                      | Inr payment_flat \<Rightarrow>
                          Inr (sale_price * fee_percent
                               + (sale_price * payment_fee + payment_flat)))))
         else Inr (sale_price * dict_get fees ''fee_percent'' 0.10))"

record profit_breakdown =
  pb_sale_price :: rat
  platform_fee :: rat
  net_payout :: rat
  profit :: rat
  profit_margin :: rat

definition calculate_net_profit :: "rat \<Rightarrow> string \<Rightarrow> rat \<Rightarrow> error + profit_breakdown" where
  "calculate_net_profit sale_price platform item_cost =
     (case total_fee sale_price platform of
        Inl e \<Rightarrow> Inl e
      | Inr fee \<Rightarrow>
          (let net = sale_price - fee;
               gain = (if item_cost \<noteq> 0 then net - item_cost else net)
           in case (if sale_price \<noteq> 0
                    then (case truediv gain sale_price of
                            Inl e \<Rightarrow> Inl e
                          | Inr q \<Rightarrow> Inr (q * 100))
                    else Inr 0) of
                Inl e \<Rightarrow> Inl e
              | Inr margin \<Rightarrow>
                  Inr \<lparr> pb_sale_price = sale_price,
                        platform_fee = round_py fee 2,
                        net_payout = round_py net 2,
                        profit = round_py gain 2,
                        profit_margin = round_py margin 1 \<rparr>))"

section \<open>Market statistics\<close>

record scraped_listing =
  sl_title :: string
  sl_price :: rat
  sl_platform :: string
  sl_url :: string

text \<open>\<^verbatim>\<open>statistics.mean\<close> and \<^verbatim>\<open>statistics.median\<close> raise StatisticsError on no data.\<close>

definition mean :: "rat list \<Rightarrow> error + rat" where
  "mean xs = (if xs = [] then Inl StatisticsError
              else Inr (sum_list xs / of_nat (length xs)))"

definition median :: "rat list \<Rightarrow> error + rat" where
  "median xs =
     (let data = sort xs; n = length data
      in if n = 0 then Inl StatisticsError
         else if n mod 2 = 1 then Inr (data ! (n div 2))
         else Inr ((data ! (n div 2 - 1) + data ! (n div 2)) / 2))"

text \<open>The builtins \<^verbatim>\<open>min\<close> and \<^verbatim>\<open>max\<close> on a list raise ValueError when it is empty.\<close>

definition min_py :: "rat list \<Rightarrow> error + rat" where
  "min_py xs = (case xs of [] \<Rightarrow> Inl ValueError | x # r \<Rightarrow> Inr (fold min r x))"

definition max_py :: "rat list \<Rightarrow> error + rat" where
  "max_py xs = (case xs of [] \<Rightarrow> Inl ValueError | x # r \<Rightarrow> Inr (fold max r x))"

record market_summary =
  ms_count :: nat
  ms_min :: rat
  ms_max :: rat
  ms_avg :: rat
  ms_median :: rat
  ms_quick_sale :: rat
  ms_fair_price :: rat
  ms_max_value :: rat
  ms_source :: string

text \<open>
  The outlier step of \<^verbatim>\<open>get_real_market_prices\<close>: the mean of all prices, the
  comprehension \<^verbatim>\<open>[p for p in prices if p < avg * 3]\<close>, and the fallback to the
  unfiltered prices when nothing is left.
\<close>

definition outlier_filter :: "rat list \<Rightarrow> error + rat list" where
  "outlier_filter prices =
     (case mean prices of
        Inl e \<Rightarrow> Inl e
      | Inr avg \<Rightarrow>
          (let filtered = filter (\<lambda>p. p < avg * 3) prices
           in Inr (if filtered = [] then prices else filtered)))"

text \<open>
  \<^verbatim>\<open>get_real_market_prices\<close> from the length check on: what it returns for the
  listings that the four scrapers produced. \<open>None\<close> is Python's \<^verbatim>\<open>None\<close>.
\<close>

definition summarize :: "scraped_listing list \<Rightarrow> error + market_summary option" where
  "summarize all_listings =
     (if length all_listings < 3 then Inr None
      else
        (let prices = map sl_price all_listings
         in case outlier_filter prices of
              Inl e \<Rightarrow> Inl e
            | Inr filtered \<Rightarrow>
                (case median filtered of
                   Inl e \<Rightarrow> Inl e
                 | Inr med \<Rightarrow>
                     (case min_py filtered of
                        Inl e \<Rightarrow> Inl e
                      | Inr lo \<Rightarrow>
                          (case max_py filtered of
                             Inl e \<Rightarrow> Inl e
                           | Inr hi \<Rightarrow>
                               (case mean filtered of
                                  Inl e \<Rightarrow> Inl e
                                | Inr m \<Rightarrow>
                                    Inr (Some
                                      \<lparr> ms_count = length filtered,
                                        ms_min = lo,
                                        ms_max = hi,
                                        ms_avg = round_py m 2,
                                        ms_median = round_py med 2,
                                        ms_quick_sale = round_py (med * 0.85) 2,
                                        ms_fair_price = round_py med 2,
                                        ms_max_value = round_py (med * 1.2) 2,
                                        ms_source = ''live_scrape'' \<rparr>)))))))"

text \<open>
  The market data source: the four scrapers, each from a query to its listings.
  Their fetching and pattern matching is not modelled; a scraper that raises
  returns \<open>Inl\<close>.
\<close>

record market_source =
  scrape_ebay_sold :: "string \<Rightarrow> error + scraped_listing list"
  scrape_poshmark_sold :: "string \<Rightarrow> error + scraped_listing list"
  scrape_mercari_sold :: "string \<Rightarrow> error + scraped_listing list"
  scrape_depop_sold :: "string \<Rightarrow> error + scraped_listing list"

definition get_real_market_prices ::
  "market_source \<Rightarrow> string \<Rightarrow> error + market_summary option" where
  "get_real_market_prices src query =
     (case scrape_ebay_sold src query of
        Inl e \<Rightarrow> Inl e
      | Inr ebay \<Rightarrow>
          (case scrape_poshmark_sold src query of
             Inl e \<Rightarrow> Inl e
           | Inr poshmark \<Rightarrow>
               (case scrape_mercari_sold src query of
                  Inl e \<Rightarrow> Inl e
                | Inr mercari \<Rightarrow>
                    (case scrape_depop_sold src query of
                       Inl e \<Rightarrow> Inl e
                     | Inr depop \<Rightarrow> summarize (ebay @ poshmark @ mercari @ depop)))))"

section \<open>Retail-based estimate\<close>

record retail_estimate =
  est_low :: rat
  est_high :: rat
  est_avg :: rat

definition multipliers :: "(string \<times> rat \<times> rat) list" where
  "multipliers =
     [(''new'', (0.60, 0.85)),
      (''excellent'', (0.45, 0.65)),
      (''good'', (0.30, 0.50)),
      (''fair'', (0.15, 0.30))]"

text \<open>
  The source has no check on \<^verbatim>\<open>retail_price\<close> and no \<^verbatim>\<open>raise\<close>; the result is a
  sum only so that a failure could be told from a result.
\<close>

definition estimate_from_retail :: "rat \<Rightarrow> string \<Rightarrow> error + retail_estimate" where
  "estimate_from_retail retail_price condition =
     (case dict_get multipliers condition (0.30, 0.50) of
        (low_mult, high_mult) \<Rightarrow>
          Inr \<lparr> est_low = round_py (retail_price * low_mult) 2,
                est_high = round_py (retail_price * high_mult) 2,
                est_avg = round_py (retail_price * (low_mult + high_mult) / 2) 2 \<rparr>)"

section \<open>Recommendation engine\<close>

text \<open>Text formatting: \<^verbatim>\<open>str.strip()\<close>, an integer in an f-string, and \<^verbatim>\<open>{x:.2f}\<close>.\<close>

definition isspace :: "char \<Rightarrow> bool" where
  "isspace c = (of_char c \<in> {9, 10, 11, 12, 13, 28, 29, 30, 31, 32, 133, 160 :: nat})"

definition strip :: "string \<Rightarrow> string" where
  "strip s = rev (dropWhile isspace (rev (dropWhile isspace s)))"

fun str_nat :: "nat \<Rightarrow> string" where
  "str_nat n =
     (if n < 10 then [''0123456789'' ! n]
      else str_nat (n div 10) @ [''0123456789'' ! (n mod 10)])"

definition format_2f :: "rat \<Rightarrow> string" where
  "format_2f x =
     (let cents = nat (round_half_even (\<bar>x\<bar> * 100))
      in (if x < 0 then ''-'' else [])
         @ str_nat (cents div 100) @ ''.''
         @ [''0123456789'' ! (cents mod 100 div 10), ''0123456789'' ! (cents mod 10)])"

record price_tiers =
  quick_sale :: rat
  fair_price :: rat
  max_value :: rat

record tier_breakdowns =
  tb_quick_sale :: profit_breakdown
  tb_fair_price :: profit_breakdown
  tb_max_value :: profit_breakdown

record recommendation =
  rec_item :: string
  rec_brand :: string
  rec_condition :: string
  data_source :: string
  market_data :: "market_summary option"
  estimates :: price_tiers
  platforms :: "(string \<times> tier_breakdowns) list"
  rec_text :: string

text \<open>
  The \<^verbatim>\<open>try\<close> block: the summary of the live data when \<^verbatim>\<open>use_live_data\<close> is set
  and the call returns; \<^verbatim>\<open>None\<close> when the flag is off, and when the call raises
  (the exception is printed and dropped).
\<close>

definition fetch_real_prices ::
  "market_source \<Rightarrow> bool \<Rightarrow> string \<Rightarrow> market_summary option" where
  "fetch_real_prices src use_live_data search_query =
     (if use_live_data
      then (case get_real_market_prices src search_query of
              Inl e \<Rightarrow> None
            | Inr real_prices \<Rightarrow> real_prices)
      else None)"

text \<open>
  The three-way branch: the tiers and the data source tag, before the cost floor.
  The first test is \<^verbatim>\<open>real_prices and real_prices.get("count", 0) >= 3\<close>;
  \<^verbatim>\<open>elif retail_price:\<close> is Python truth: taken for every number other than zero.
\<close>

definition has_live_data :: "market_summary option \<Rightarrow> bool" where
  "has_live_data real_prices =
     (case real_prices of None \<Rightarrow> False | Some s \<Rightarrow> 3 \<le> ms_count s)"

definition price_branch ::
  "market_summary option \<Rightarrow> rat option \<Rightarrow> string \<Rightarrow> error + price_tiers \<times> string" where
  "price_branch real_prices retail_price condition =
     (if has_live_data real_prices then
        (let s = the real_prices
         in Inr (\<lparr> quick_sale = ms_quick_sale s,
                    fair_price = ms_fair_price s,
                    max_value = ms_max_value s \<rparr>,
                 ''live ('' @ str_nat (ms_count s) @ '' sold listings)''))
      else if (case retail_price of None \<Rightarrow> False | Some r \<Rightarrow> r \<noteq> 0) then
        (case estimate_from_retail (the retail_price) condition of
           Inl e \<Rightarrow> Inl e
         | Inr est \<Rightarrow>
             Inr (\<lparr> quick_sale = est_low est,
                     fair_price = est_avg est,
                     max_value = est_high est \<rparr>,
                  ''estimated from retail''))
      else
        Inr (\<lparr> quick_sale = 25.0, fair_price = 50.0, max_value = 75.0 \<rparr>,
             ''default estimate''))"

text \<open>The cost floor: \<^verbatim>\<open>if item_cost:\<close> is taken for every cost other than zero.\<close>

definition cost_floor :: "rat \<Rightarrow> price_tiers \<Rightarrow> price_tiers" where
  "cost_floor item_cost t =
     (if item_cost \<noteq> 0 then
        (let min_price = item_cost * 1.1
         in t\<lparr> quick_sale := max (quick_sale t) min_price,
               fair_price := max (fair_price t) min_price \<rparr>)
      else t)"

text \<open>The loop over the four platforms, three fee computations each.\<close>

fun platform_table ::
  "string list \<Rightarrow> price_tiers \<Rightarrow> rat \<Rightarrow> error + (string \<times> tier_breakdowns) list" where
  "platform_table [] t item_cost = Inr []"
| "platform_table (p # ps) t item_cost =
     (case calculate_net_profit (quick_sale t) p item_cost of
        Inl e \<Rightarrow> Inl e
      | Inr q \<Rightarrow>
          (case calculate_net_profit (fair_price t) p item_cost of
             Inl e \<Rightarrow> Inl e
           | Inr f \<Rightarrow>
               (case calculate_net_profit (max_value t) p item_cost of
                  Inl e \<Rightarrow> Inl e
                | Inr m \<Rightarrow>
                    (case platform_table ps t item_cost of
                       Inl e \<Rightarrow> Inl e
                     | Inr rest \<Rightarrow>
                         Inr ((p, \<lparr> tb_quick_sale = q, tb_fair_price = f,
                                     tb_max_value = m \<rparr>) # rest)))))"

definition search_query :: "string \<Rightarrow> string \<Rightarrow> string" where
  "search_query brand item_name =
     (if brand \<noteq> [] then strip (brand @ '' '' @ item_name) else item_name)"

definition generate_price_recommendation ::
  "market_source \<Rightarrow> string \<Rightarrow> string \<Rightarrow> string \<Rightarrow> rat option \<Rightarrow> rat \<Rightarrow> bool
     \<Rightarrow> error + recommendation" where
  "generate_price_recommendation src item_name brand condition retail_price item_cost
       use_live_data =
     (let real_prices = fetch_real_prices src use_live_data (search_query brand item_name)
      in case price_branch real_prices retail_price condition of
           Inl e \<Rightarrow> Inl e
         | Inr (branch_tiers, source_tag) \<Rightarrow>
             (let t = cost_floor item_cost branch_tiers
              in case platform_table [''poshmark'', ''depop'', ''mercari'', ''ebay'']
                        t item_cost of
                   Inl e \<Rightarrow> Inl e
                 | Inr table \<Rightarrow>
                     Inr \<lparr> rec_item = item_name,
                           rec_brand = brand,
                           rec_condition = condition,
                           data_source = source_tag,
                           market_data = real_prices,
                           estimates = t,
                           platforms = table,
                           rec_text = ''List at $'' @ format_2f (fair_price t)
                             @ '' for fair value, or $'' @ format_2f (quick_sale t)
                             @ '' for quick sale'' \<rparr>))"

text \<open>
  Market data sources for concrete runs: one whose eBay scraper returns the given
  listings while the other three find nothing (a failed fetch gives the empty
  list), and one whose first scraper raises.
\<close>

definition sold_at :: "rat \<Rightarrow> scraped_listing" where
  "sold_at p = \<lparr> sl_title = ''eBay Sold Item'', sl_price = p,
                 sl_platform = ''eBay'', sl_url = [] \<rparr>"

definition source_of :: "rat list \<Rightarrow> market_source" where
  "source_of ps =
     \<lparr> scrape_ebay_sold = (\<lambda>q. Inr (map sold_at ps)),
       scrape_poshmark_sold = (\<lambda>q. Inr []),
       scrape_mercari_sold = (\<lambda>q. Inr []),
       scrape_depop_sold = (\<lambda>q. Inr []) \<rparr>"

definition failing_source :: market_source where
  "failing_source =
     \<lparr> scrape_ebay_sold = (\<lambda>q. Inl SourceError),
       scrape_poshmark_sold = (\<lambda>q. Inr []),
       scrape_mercari_sold = (\<lambda>q. Inr []),
       scrape_depop_sold = (\<lambda>q. Inr []) \<rparr>"

section \<open>Properties of the fee model\<close>

lemma fees_poshmark:
  "dict_get get_platform_fees ''poshmark'' d =
     [(''fee_under_15'', 2.95), (''fee_percent'', 0.20), (''threshold'', 15.00)]"
  by (simp add: dict_get_def get_platform_fees_def)

lemma fees_depop:
  "dict_get get_platform_fees ''depop'' d =
     [(''fee_percent'', 0.10), (''payment_fee'', 0.029), (''payment_flat'', 0.30)]"
  by (simp add: dict_get_def get_platform_fees_def)

lemma total_fee_poshmark:
  "total_fee sale_price ''poshmark'' =
     Inr (if sale_price < 15.00 then 2.95 else sale_price * 0.20)"
  by (simp add: total_fee_def fees_poshmark dict_item_def)

lemma total_fee_depop:
  "total_fee sale_price ''depop'' =
     Inr (sale_price * 0.10 + (sale_price * 0.029 + 0.30))"
  by (simp add: total_fee_def fees_depop dict_item_def)

lemma total_fee_other:
  "platform \<noteq> ''poshmark'' \<Longrightarrow> platform \<noteq> ''depop'' \<Longrightarrow>
   total_fee sale_price platform =
     Inr (sale_price *
          dict_get (dict_get get_platform_fees platform [(''fee_percent'', 0.10)])
            ''fee_percent'' 0.10)"
  by (simp add: total_fee_def)

lemma total_fee_returns: "\<exists>fee. total_fee sale_price platform = Inr fee"
proof (cases "platform = ''poshmark''")
  case True
  then show ?thesis by (simp add: total_fee_poshmark)
next
  case False
  show ?thesis
  proof (cases "platform = ''depop''")
    case True
    then show ?thesis by (simp add: total_fee_depop)
  next
    case False
    with \<open>platform \<noteq> ''poshmark''\<close> show ?thesis by (simp add: total_fee_other)
  qed
qed

lemma calculate_net_profit_eq:
  assumes "total_fee sale_price platform = Inr fee"
  shows "calculate_net_profit sale_price platform item_cost =
     Inr \<lparr> pb_sale_price = sale_price,
           platform_fee = round_py fee 2,
           net_payout = round_py (sale_price - fee) 2,
           profit = round_py (if item_cost \<noteq> 0 then sale_price - fee - item_cost
                              else sale_price - fee) 2,
           profit_margin =
             round_py (if sale_price \<noteq> 0
                       then (if item_cost \<noteq> 0 then sale_price - fee - item_cost
                             else sale_price - fee) / sale_price * 100
                       else 0) 1 \<rparr>"
  using assms by (simp add: calculate_net_profit_def truediv_def Let_def)

lemma round_py_zero: "round_py 0 n = 0"
  by (simp add: round_py_def round_half_even_def)

lemma fees_xiaohongshu:
  "dict_get get_platform_fees ''xiaohongshu'' d = [(''fee_percent'', 0.05)]"
  by (simp add: dict_get_def get_platform_fees_def)

lemma fees_unlisted:
  "platform \<notin> fst ` set get_platform_fees \<Longrightarrow> dict_get get_platform_fees platform d = d"
  by (simp add: dict_get_def map_of_eq_None_iff [THEN iffD2])

text \<open>
  Claim C8. For the platform \<^verbatim>\<open>poshmark\<close> and no item cost, the fee is the flat 2.95
  exactly when the sale price is below 15.00 and 20 percent of the sale price
  otherwise; the reported \<^verbatim>\<open>platform_fee\<close> is that fee rounded to two places, 2.95 at
  a sale price of 14.99 and 3.00 at 15.00.
\<close>

theorem poshmark_fee_threshold:
  "total_fee sale_price ''poshmark'' =
     Inr (if sale_price < 15.00 then 2.95 else sale_price * 0.20)
   \<and> map_sum id platform_fee (calculate_net_profit sale_price ''poshmark'' 0) =
       Inr (round_py (if sale_price < 15.00 then 2.95 else sale_price * 0.20) 2)
   \<and> map_sum id platform_fee (calculate_net_profit 14.99 ''poshmark'' 0) = Inr 2.95
   \<and> map_sum id platform_fee (calculate_net_profit 15.00 ''poshmark'' 0) = Inr 3.00"
proof -
  have a: "total_fee sale_price ''poshmark'' =
     Inr (if sale_price < 15.00 then 2.95 else sale_price * 0.20)"
    by (rule total_fee_poshmark)
  have b: "map_sum id platform_fee (calculate_net_profit sale_price ''poshmark'' 0) =
       Inr (round_py (if sale_price < 15.00 then 2.95 else sale_price * 0.20) 2)"
    by (simp add: calculate_net_profit_eq [OF a])
  have c: "map_sum id platform_fee (calculate_net_profit 14.99 ''poshmark'' 0) = Inr 2.95"
    by code_simp
  have d: "map_sum id platform_fee (calculate_net_profit 15.00 ''poshmark'' 0) = Inr 3.00"
    by code_simp
  from a b c d show ?thesis by blast
qed

text \<open>
  Claim C1, as stated, fails for \<^verbatim>\<open>xiaohongshu\<close>: the fee table has an entry of its
  own for it, 5 percent, so a sale at 100 is charged 5 and not 10.
\<close>

theorem default_fee_counterexample:
  "(0::rat) < 100
   \<and> total_fee 100 ''xiaohongshu'' = Inr 5
   \<and> total_fee 100 ''xiaohongshu'' \<noteq> Inr (100 * 0.10)
   \<and> map_sum id platform_fee (calculate_net_profit 100 ''xiaohongshu'' 0) = Inr 5"
  by code_simp

text \<open>
  Claim C1, amended. For every positive sale price the platform \<^verbatim>\<open>xiaohongshu\<close> is
  charged 5 percent of the sale price, and a platform name that is not in the fee
  table is charged the default of 10 percent.
\<close>

theorem default_fee_amended:
  assumes "0 < sale_price"
  shows "total_fee sale_price ''xiaohongshu'' = Inr (sale_price * 0.05)
   \<and> map_sum id platform_fee (calculate_net_profit sale_price ''xiaohongshu'' item_cost) =
       Inr (round_py (sale_price * 0.05) 2)
   \<and> (platform \<notin> fst ` set get_platform_fees \<longrightarrow>
         total_fee sale_price platform = Inr (sale_price * 0.10)
         \<and> map_sum id platform_fee (calculate_net_profit sale_price platform item_cost) =
             Inr (round_py (sale_price * 0.10) 2))"
proof -
  have "total_fee sale_price ''xiaohongshu'' =
     Inr (sale_price *
          dict_get (dict_get get_platform_fees ''xiaohongshu'' [(''fee_percent'', 0.10)])
            ''fee_percent'' 0.10)"
    by (rule total_fee_other) simp_all
  then have a: "total_fee sale_price ''xiaohongshu'' = Inr (sale_price * 0.05)"
    unfolding fees_xiaohongshu by (simp add: dict_get_def)
  have b: "total_fee sale_price platform = Inr (sale_price * 0.10)"
    if "platform \<notin> fst ` set get_platform_fees"
  proof -
    from that have "platform \<noteq> ''poshmark''" and "platform \<noteq> ''depop''"
      by (auto simp: get_platform_fees_def)
    then have "total_fee sale_price platform =
       Inr (sale_price *
            dict_get (dict_get get_platform_fees platform [(''fee_percent'', 0.10)])
              ''fee_percent'' 0.10)"
      by (rule total_fee_other)
    then show ?thesis
      unfolding fees_unlisted [OF that] by (simp add: dict_get_def)
  qed
  have c: "map_sum id platform_fee (calculate_net_profit sale_price ''xiaohongshu'' item_cost) =
       Inr (round_py (sale_price * 0.05) 2)"
    by (simp add: calculate_net_profit_eq [OF a])
  have d: "map_sum id platform_fee (calculate_net_profit sale_price platform item_cost) =
             Inr (round_py (sale_price * 0.10) 2)"
    if "platform \<notin> fst ` set get_platform_fees"
    by (simp add: calculate_net_profit_eq [OF b [OF that]])
  from a b c d show ?thesis by blast
qed

text \<open>
  Claim C1, amended, at a sale price of 100 and the unlisted platform \<^verbatim>\<open>etsy\<close>.
\<close>

theorem default_fee_amended_witness:
  "(0::rat) < 100
   \<and> ''etsy'' \<notin> fst ` set get_platform_fees
   \<and> total_fee 100 ''xiaohongshu'' = Inr (100 * 0.05)
   \<and> total_fee 100 ''etsy'' = Inr (100 * 0.10)"
proof -
  have h: "(0::rat) < 100" by simp
  have k: "''etsy'' \<notin> fst ` set get_platform_fees"
    by (simp add: get_platform_fees_def)
  from default_fee_amended [OF h, of 0 "''etsy''"] h k show ?thesis by blast
qed



section \<open>Rounding and statistics\<close>

lemma round_half_even_lower: "\<lfloor>x\<rfloor> \<le> round_half_even x"
  by (simp add: round_half_even_def Let_def)

lemma round_half_even_upper: "round_half_even x \<le> \<lfloor>x\<rfloor> + 1"
  by (simp add: round_half_even_def Let_def)

lemma round_half_even_mono:
  assumes "x \<le> y"
  shows "round_half_even x \<le> round_half_even y"
proof (cases "\<lfloor>x\<rfloor> < \<lfloor>y\<rfloor>")
  case True
  have "round_half_even x \<le> \<lfloor>x\<rfloor> + 1" by (rule round_half_even_upper)
  also have "\<dots> \<le> \<lfloor>y\<rfloor>" using True by simp
  also have "\<dots> \<le> round_half_even y" by (rule round_half_even_lower)
  finally show ?thesis .
next
  case False
  with floor_mono [OF assms] have eq: "\<lfloor>x\<rfloor> = \<lfloor>y\<rfloor>" by simp
  with assms have "x - of_int \<lfloor>y\<rfloor> \<le> y - of_int \<lfloor>y\<rfloor>" by simp
  then show ?thesis
    unfolding round_half_even_def Let_def eq by auto
qed

lemma round_py_mono: "x \<le> y \<Longrightarrow> round_py x n \<le> round_py y n"
proof -
  assume "x \<le> y"
  then have "x * 10 ^ n \<le> y * 10 ^ n" by simp
  then have "round_half_even (x * 10 ^ n) \<le> round_half_even (y * 10 ^ n)"
    by (rule round_half_even_mono)
  then show ?thesis
    by (simp add: round_py_def divide_right_mono)
qed

lemma mean_eq: "xs \<noteq> [] \<Longrightarrow> mean xs = Inr (sum_list xs / of_nat (length xs))"
  by (simp add: mean_def)

lemma min_py_eq: "xs \<noteq> [] \<Longrightarrow> min_py xs = Inr (Min (set xs))"
  by (cases xs) (simp_all add: min_py_def Min.set_eq_fold [symmetric])

lemma max_py_eq: "xs \<noteq> [] \<Longrightarrow> max_py xs = Inr (Max (set xs))"
  by (cases xs) (simp_all add: max_py_def Max.set_eq_fold [symmetric])

lemma sort_eq_Nil: "sort xs = [] \<longleftrightarrow> xs = []"
  using length_sort [of "\<lambda>x. x" xs] by (metis length_0_conv)

lemma sorted_nth_bounds:
  fixes xs :: "rat list"
  assumes "i < length xs"
  shows "Min (set xs) \<le> sort xs ! i" and "sort xs ! i \<le> Max (set xs)"
proof -
  have "sort xs ! i \<in> set (sort xs)"
    by (rule nth_mem) (simp add: assms)
  then have m: "sort xs ! i \<in> set xs" by simp
  show "Min (set xs) \<le> sort xs ! i" using m by simp
  show "sort xs ! i \<le> Max (set xs)" using m by simp
qed

lemma median_bounds:
  assumes "xs \<noteq> []"
  shows "\<exists>m. median xs = Inr m \<and> Min (set xs) \<le> m \<and> m \<le> Max (set xs)"
proof -
  let ?n = "length xs"
  from assms have n: "0 < ?n" by simp
  show ?thesis
  proof (cases "?n mod 2 = 1")
    case True
    have i: "?n div 2 < ?n" using n by simp
    from True n have "median xs = Inr (sort xs ! (?n div 2))"
      by (simp add: median_def Let_def sort_eq_Nil)
    with sorted_nth_bounds [OF i] show ?thesis by simp
  next
    case False
    have i: "?n div 2 < ?n" using n by simp
    have j: "?n div 2 - 1 < ?n" using n by arith
    from False n have "median xs =
        Inr ((sort xs ! (?n div 2 - 1) + sort xs ! (?n div 2)) / 2)"
      by (simp add: median_def Let_def sort_eq_Nil)
    moreover have "Min (set xs) \<le> (sort xs ! (?n div 2 - 1) + sort xs ! (?n div 2)) / 2"
      using sorted_nth_bounds(1) [OF i] sorted_nth_bounds(1) [OF j] by simp
    moreover have "(sort xs ! (?n div 2 - 1) + sort xs ! (?n div 2)) / 2 \<le> Max (set xs)"
      using sorted_nth_bounds(2) [OF i] sorted_nth_bounds(2) [OF j] by simp
    ultimately show ?thesis by blast
  qed
qed

lemma outlier_filter_eq:
  "prices \<noteq> [] \<Longrightarrow>
   outlier_filter prices =
     Inr (if filter (\<lambda>p. p < sum_list prices / of_nat (length prices) * 3) prices = []
          then prices
          else filter (\<lambda>p. p < sum_list prices / of_nat (length prices) * 3) prices)"
  by (simp add: outlier_filter_def mean_eq Let_def)

lemma outlier_filter_nonempty:
  "prices \<noteq> [] \<Longrightarrow> \<exists>f. outlier_filter prices = Inr f \<and> f \<noteq> [] \<and> set f \<subseteq> set prices"
  by (auto simp: outlier_filter_eq)

lemma summarize_eq:
  assumes "3 \<le> length ls"
    and "outlier_filter (map sl_price ls) = Inr f"
    and "f \<noteq> []"
    and "median f = Inr med"
  shows "summarize ls =
     Inr (Some \<lparr> ms_count = length f,
                 ms_min = Min (set f),
                 ms_max = Max (set f),
                 ms_avg = round_py (sum_list f / of_nat (length f)) 2,
                 ms_median = round_py med 2,
                 ms_quick_sale = round_py (med * 0.85) 2,
                 ms_fair_price = round_py med 2,
                 ms_max_value = round_py (med * 1.2) 2,
                 ms_source = ''live_scrape'' \<rparr>)"
  using assms by (simp add: summarize_def Let_def min_py_eq max_py_eq mean_eq)

lemma summarize_short: "length ls < 3 \<Longrightarrow> summarize ls = Inr None"
  by (simp add: summarize_def)

lemma summarize_returns: "\<exists>r. summarize ls = Inr r"
proof (cases "length ls < 3")
  case True
  then show ?thesis by (simp add: summarize_short)
next
  case False
  then have l: "3 \<le> length ls" by simp
  then have "map sl_price ls \<noteq> []" by auto
  from outlier_filter_nonempty [OF this]
  obtain f where f: "outlier_filter (map sl_price ls) = Inr f" "f \<noteq> []" by blast
  from median_bounds [OF f(2)] obtain med where "median f = Inr med" by blast
  from summarize_eq [OF l f this] show ?thesis by blast
qed






lemma round_py_nonpos: "x \<le> 0 \<Longrightarrow> round_py x n \<le> 0"
  using round_py_mono [of x 0 n] by (simp add: round_py_zero)

section \<open>Properties of the outlier filter and the market summary\<close>









section \<open>Properties of the retail estimate and the recommendation engine\<close>

lemma calculate_net_profit_returns:
  "\<exists>r. calculate_net_profit sale_price platform item_cost = Inr r"
proof -
  obtain fee where "total_fee sale_price platform = Inr fee"
    using total_fee_returns by blast
  from calculate_net_profit_eq [OF this] show ?thesis by blast
qed

lemma platform_table_returns:
  "\<exists>table. platform_table ps t item_cost = Inr table \<and> map fst table = ps"
proof (induction ps)
  case Nil
  show ?case by simp
next
  case (Cons p ps)
  then obtain rest where rest: "platform_table ps t item_cost = Inr rest"
    and names: "map fst rest = ps" by blast
  obtain q where q: "calculate_net_profit (quick_sale t) p item_cost = Inr q"
    using calculate_net_profit_returns by blast
  obtain f where f: "calculate_net_profit (fair_price t) p item_cost = Inr f"
    using calculate_net_profit_returns by blast
  obtain m where m: "calculate_net_profit (max_value t) p item_cost = Inr m"
    using calculate_net_profit_returns by blast
  from rest names q f m show ?case by simp
qed

lemma multipliers_nonneg:
  "0 \<le> fst (dict_get multipliers condition (0.30, 0.50))
   \<and> 0 \<le> snd (dict_get multipliers condition (0.30, 0.50))"
  by (simp add: dict_get_def multipliers_def)

lemma estimate_from_retail_eq:
  "estimate_from_retail retail_price condition =
     Inr \<lparr> est_low = round_py (retail_price
                         * fst (dict_get multipliers condition (0.30, 0.50))) 2,
           est_high = round_py (retail_price
                         * snd (dict_get multipliers condition (0.30, 0.50))) 2,
           est_avg = round_py (retail_price
                         * (fst (dict_get multipliers condition (0.30, 0.50))
                            + snd (dict_get multipliers condition (0.30, 0.50))) / 2) 2 \<rparr>"
  by (simp add: estimate_from_retail_def split: prod.split)

lemma price_branch_live:
  "has_live_data (Some s) \<Longrightarrow>
   price_branch (Some s) retail_price condition =
     Inr (\<lparr> quick_sale = ms_quick_sale s, fair_price = ms_fair_price s,
             max_value = ms_max_value s \<rparr>,
          ''live ('' @ str_nat (ms_count s) @ '' sold listings)'')"
  by (simp add: price_branch_def Let_def)

lemma price_branch_retail:
  assumes "\<not> has_live_data real_prices" and "x \<noteq> 0"
    and "estimate_from_retail x condition = Inr est"
  shows "price_branch real_prices (Some x) condition =
     Inr (\<lparr> quick_sale = est_low est, fair_price = est_avg est,
             max_value = est_high est \<rparr>, ''estimated from retail'')"
  using assms by (simp add: price_branch_def)

lemma price_branch_default:
  assumes "\<not> has_live_data real_prices"
    and "retail_price = None \<or> retail_price = Some 0"
  shows "price_branch real_prices retail_price condition =
     Inr (\<lparr> quick_sale = 25.0, fair_price = 50.0, max_value = 75.0 \<rparr>,
          ''default estimate'')"
  using assms by (auto simp: price_branch_def)

lemma price_branch_returns:
  "\<exists>bt tag. price_branch real_prices retail_price condition = Inr (bt, tag)"
proof (cases "has_live_data real_prices")
  case True
  then obtain s where "real_prices = Some s"
    by (cases real_prices) (simp_all add: has_live_data_def)
  with True price_branch_live show ?thesis by blast
next
  case False
  show ?thesis
  proof (cases "retail_price = None \<or> retail_price = Some 0")
    case True
    from price_branch_default [OF False True] show ?thesis by blast
  next
    case no: False
    then obtain x where x: "retail_price = Some x" "x \<noteq> 0" by (cases retail_price) auto
    from price_branch_retail [OF False x(2) estimate_from_retail_eq] x(1)
    show ?thesis by blast
  qed
qed

lemma generate_eq:
  assumes "price_branch (fetch_real_prices src use_live_data (search_query brand item_name))
             retail_price condition = Inr (bt, tag)"
  shows "\<exists>r. generate_price_recommendation src item_name brand condition retail_price
                item_cost use_live_data = Inr r
     \<and> data_source r = tag
     \<and> estimates r = cost_floor item_cost bt
     \<and> market_data r = fetch_real_prices src use_live_data (search_query brand item_name)
     \<and> map fst (platforms r) = [''poshmark'', ''depop'', ''mercari'', ''ebay'']
     \<and> rec_item r = item_name \<and> rec_brand r = brand \<and> rec_condition r = condition"
proof -
  obtain table where
    "platform_table [''poshmark'', ''depop'', ''mercari'', ''ebay'']
       (cost_floor item_cost bt) item_cost = Inr table"
    and "map fst table = [''poshmark'', ''depop'', ''mercari'', ''ebay'']"
    using platform_table_returns by blast
  with assms show ?thesis
    by (simp add: generate_price_recommendation_def Let_def)
qed

lemma fetch_real_prices_off: "fetch_real_prices src False q = None"
  by (simp add: fetch_real_prices_def)

lemma get_real_market_prices_eq:
  assumes "scrape_ebay_sold src q = Inr a" and "scrape_poshmark_sold src q = Inr b"
    and "scrape_mercari_sold src q = Inr c" and "scrape_depop_sold src q = Inr d"
  shows "get_real_market_prices src q = summarize (a @ b @ c @ d)"
  using assms by (simp add: get_real_market_prices_def)

text \<open>
  Claim C4, as stated, fails: \<^verbatim>\<open>estimate_from_retail\<close> has no check on its argument.
  For a retail price of \<open>-100\<close> in good condition it returns the estimate
  \<open>-30\<close>, \<open>-50\<close>, \<open>-40\<close>, and for a retail price of 0 the estimate 0, 0, 0.
\<close>

theorem estimate_from_retail_counterexample:
  "(- 100 :: rat) \<le> 0
   \<and> estimate_from_retail (- 100) ''good''
       = Inr \<lparr> est_low = - 30, est_high = - 50, est_avg = - 40 \<rparr>
   \<and> \<not> isl (estimate_from_retail (- 100) ''good'')
   \<and> estimate_from_retail 0 ''new'' = Inr \<lparr> est_low = 0, est_high = 0, est_avg = 0 \<rparr>"
  by code_simp

text \<open>
  Claim C4, amended. For every retail price that is zero or negative and every
  condition, \<^verbatim>\<open>estimate_from_retail\<close> does not fail: it returns the low, high and
  average estimate computed from the multipliers of the condition as for any other
  price, and none of the three is positive.
\<close>

theorem estimate_from_retail_total:
  assumes "retail_price \<le> 0"
  shows "\<exists>est. estimate_from_retail retail_price condition = Inr est
     \<and> est_low est
         = round_py (retail_price * fst (dict_get multipliers condition (0.30, 0.50))) 2
     \<and> est_high est
         = round_py (retail_price * snd (dict_get multipliers condition (0.30, 0.50))) 2
     \<and> est_avg est
         = round_py (retail_price
                      * (fst (dict_get multipliers condition (0.30, 0.50))
                         + snd (dict_get multipliers condition (0.30, 0.50))) / 2) 2
     \<and> est_low est \<le> 0 \<and> est_high est \<le> 0 \<and> est_avg est \<le> 0"
proof -
  let ?lo = "fst (dict_get multipliers condition (0.30, 0.50))"
  let ?hi = "snd (dict_get multipliers condition (0.30, 0.50))"
  from multipliers_nonneg [of condition] have lo: "0 \<le> ?lo" and hi: "0 \<le> ?hi"
    by blast+
  have a: "round_py (retail_price * ?lo) 2 \<le> 0"
    by (rule round_py_nonpos) (use assms lo in \<open>simp add: mult_nonpos_nonneg\<close>)
  have b: "round_py (retail_price * ?hi) 2 \<le> 0"
    by (rule round_py_nonpos) (use assms hi in \<open>simp add: mult_nonpos_nonneg\<close>)
  have "retail_price * (?lo + ?hi) \<le> 0"
    using assms lo hi by (simp add: mult_nonpos_nonneg)
  then have "retail_price * (?lo + ?hi) / 2 \<le> 0"
    by (simp add: divide_nonpos_pos)
  then have c: "round_py (retail_price * (?lo + ?hi) / 2) 2 \<le> 0"
    by (rule round_py_nonpos)
  from a b c show ?thesis
    by (simp add: estimate_from_retail_eq)
qed

text \<open>
  Claim C4, amended, at a retail price of \<open>-100\<close> in excellent condition.
\<close>

theorem estimate_from_retail_total_witness:
  "(- 100 :: rat) \<le> 0
   \<and> (\<exists>est. estimate_from_retail (- 100) ''excellent'' = Inr est
          \<and> est_low est \<le> 0 \<and> est_high est \<le> 0 \<and> est_avg est \<le> 0)"
proof -
  have h: "(- 100 :: rat) \<le> 0" by simp
  from estimate_from_retail_total [OF h, of "''excellent''"] h show ?thesis by blast
qed

text \<open>
  Claim C3, as stated, fails for a negative retail price: \<^verbatim>\<open>elif retail_price:\<close> is
  true for every number other than zero. With live data off and a retail price of
  \<open>-100\<close> the engine uses the retail estimator (tiers \<open>-30\<close>, \<open>-40\<close>, \<open>-50\<close>, tag
  "estimated from retail"), where no retail price gives "default estimate".
\<close>

theorem negative_retail_counterexample:
  "\<not> has_live_data (fetch_real_prices (source_of []) False (search_query [] ''boots''))
   \<and> (- 100 :: rat) \<le> 0
   \<and> map_sum id data_source
        (generate_price_recommendation (source_of []) ''boots'' [] ''good''
           (Some (- 100)) 0 False) = Inr ''estimated from retail''
   \<and> map_sum id estimates
        (generate_price_recommendation (source_of []) ''boots'' [] ''good''
           (Some (- 100)) 0 False)
       = Inr \<lparr> quick_sale = - 30, fair_price = - 40, max_value = - 50 \<rparr>
   \<and> map_sum id data_source
        (generate_price_recommendation (source_of []) ''boots'' [] ''good''
           None 0 False) = Inr ''default estimate''"
proof -
  let ?rp = "fetch_real_prices (source_of []) False (search_query [] ''boots'')"
  have h: "\<not> has_live_data ?rp"
    by (simp add: fetch_real_prices_off has_live_data_def)
  have e: "estimate_from_retail (- 100) ''good''
       = Inr \<lparr> est_low = - 30, est_high = - 50, est_avg = - 40 \<rparr>"
    by code_simp
  have x: "(- 100 :: rat) \<noteq> 0" by simp
  from generate_eq [OF price_branch_retail [OF h x e], of 0]
  have a: "map_sum id data_source
        (generate_price_recommendation (source_of []) ''boots'' [] ''good''
           (Some (- 100)) 0 False) = Inr ''estimated from retail''"
    and b: "map_sum id estimates
        (generate_price_recommendation (source_of []) ''boots'' [] ''good''
           (Some (- 100)) 0 False)
       = Inr \<lparr> quick_sale = - 30, fair_price = - 40, max_value = - 50 \<rparr>"
    by (auto simp: cost_floor_def)
  have n: "None = None \<or> None = Some (0 :: rat)" by simp
  from generate_eq [OF price_branch_default [OF h n], of "''good''" 0]
  have c: "map_sum id data_source
        (generate_price_recommendation (source_of []) ''boots'' [] ''good''
           None 0 False) = Inr ''default estimate''"
    by auto
  from h a b c show ?thesis by simp
qed

text \<open>
  Claim C3, amended. When the live-data branch is not taken, a retail price of zero
  is treated exactly as no retail price: the two calls return the same result, from
  the static default branch (25, 50, 75 and the tag "default estimate", the cost
  floor applied afterwards). A negative retail price is not: it goes to the retail
  estimator, and the tag is "estimated from retail".
\<close>

theorem zero_retail_is_no_retail:
  assumes "\<not> has_live_data
             (fetch_real_prices src use_live_data (search_query brand item_name))"
  shows "generate_price_recommendation src item_name brand condition (Some 0) item_cost
           use_live_data
         = generate_price_recommendation src item_name brand condition None item_cost
             use_live_data
   \<and> price_branch (fetch_real_prices src use_live_data (search_query brand item_name))
        (Some 0) condition
       = Inr (\<lparr> quick_sale = 25, fair_price = 50, max_value = 75 \<rparr>, ''default estimate'')
   \<and> (\<exists>r. generate_price_recommendation src item_name brand condition (Some 0) item_cost
              use_live_data = Inr r
          \<and> data_source r = ''default estimate''
          \<and> estimates r
              = cost_floor item_cost \<lparr> quick_sale = 25, fair_price = 50, max_value = 75 \<rparr>)
   \<and> (x < 0 \<longrightarrow>
        (\<exists>r est. generate_price_recommendation src item_name brand condition (Some x)
                    item_cost use_live_data = Inr r
           \<and> estimate_from_retail x condition = Inr est
           \<and> data_source r = ''estimated from retail''
           \<and> estimates r
               = cost_floor item_cost
                   \<lparr> quick_sale = est_low est, fair_price = est_avg est,
                     max_value = est_high est \<rparr>))"
proof -
  let ?rp = "fetch_real_prices src use_live_data (search_query brand item_name)"
  have z: "price_branch ?rp (Some 0) condition =
       Inr (\<lparr> quick_sale = 25, fair_price = 50, max_value = 75 \<rparr>, ''default estimate'')"
    using price_branch_default [OF assms, of "Some 0" condition] by simp
  have n: "price_branch ?rp None condition = price_branch ?rp (Some 0) condition"
    using assms by (simp add: price_branch_def)
  have a: "generate_price_recommendation src item_name brand condition (Some 0) item_cost
           use_live_data
         = generate_price_recommendation src item_name brand condition None item_cost
             use_live_data"
    by (simp add: generate_price_recommendation_def Let_def n)
  from generate_eq [OF z, of item_cost]
  have b: "\<exists>r. generate_price_recommendation src item_name brand condition (Some 0) item_cost
              use_live_data = Inr r
          \<and> data_source r = ''default estimate''
          \<and> estimates r
              = cost_floor item_cost \<lparr> quick_sale = 25, fair_price = 50, max_value = 75 \<rparr>"
    by blast
  have c: "\<exists>r est. generate_price_recommendation src item_name brand condition (Some x)
                    item_cost use_live_data = Inr r
           \<and> estimate_from_retail x condition = Inr est
           \<and> data_source r = ''estimated from retail''
           \<and> estimates r
               = cost_floor item_cost
                   \<lparr> quick_sale = est_low est, fair_price = est_avg est,
                     max_value = est_high est \<rparr>"
    if "x < 0"
  proof -
    from that have x0: "x \<noteq> 0" by simp
    obtain est where est: "estimate_from_retail x condition = Inr est"
      using estimate_from_retail_eq by blast
    from generate_eq [OF price_branch_retail [OF assms x0 est], of item_cost] est
    show ?thesis by blast
  qed
  from a z b c show ?thesis by blast
qed

text \<open>
  Claim C3, amended, with live data off: a retail price of 0 against none, and a
  retail price of \<open>-100\<close>.
\<close>

theorem zero_retail_is_no_retail_witness:
  "\<not> has_live_data (fetch_real_prices (source_of []) False (search_query [] ''boots''))
   \<and> generate_price_recommendation (source_of []) ''boots'' [] ''good'' (Some 0) 0 False
       = generate_price_recommendation (source_of []) ''boots'' [] ''good'' None 0 False
   \<and> (- 100 :: rat) < 0
   \<and> (\<exists>r. generate_price_recommendation (source_of []) ''boots'' [] ''good''
              (Some (- 100)) 0 False = Inr r
          \<and> data_source r = ''estimated from retail'')"
proof -
  have h: "\<not> has_live_data
             (fetch_real_prices (source_of []) False (search_query [] ''boots''))"
    by (simp add: fetch_real_prices_off has_live_data_def)
  have k: "(- 100 :: rat) < 0" by simp
  from zero_retail_is_no_retail [OF h, of "''good''" 0 "- 100"] h k
  show ?thesis by blast
qed

lemma price_branch_no_data_tag:
  assumes "price_branch None retail_price condition = Inr (bt, tag)"
  shows "tag = ''estimated from retail'' \<or> tag = ''default estimate''"
proof -
  have h: "\<not> has_live_data None" by (simp add: has_live_data_def)
  show ?thesis
  proof (cases "retail_price = None \<or> retail_price = Some 0")
    case True
    from price_branch_default [OF h True, of condition] assms show ?thesis by simp
  next
    case False
    then obtain x where x: "retail_price = Some x" "x \<noteq> 0" by (cases retail_price) auto
    from price_branch_retail [OF h x(2) estimate_from_retail_eq, of condition] assms x(1)
    show ?thesis by simp
  qed
qed

text \<open>
  Claim C5. Fewer than three listings give no summary (\<^verbatim>\<open>None\<close>), also when they are
  what the four scrapers return together. \<^verbatim>\<open>generate_price_recommendation\<close> returns
  a recommendation for every market data source and every input; when the source
  raises or has too few listings, the recommendation has no market data and its
  tiers and tag come from the retail estimate or from the default branch.
\<close>

theorem degrades_without_live_data:
  "(length ls < 3 \<longrightarrow> summarize ls = Inr None)
   \<and> (scrape_ebay_sold src q = Inr a \<and> scrape_poshmark_sold src q = Inr b
        \<and> scrape_mercari_sold src q = Inr c \<and> scrape_depop_sold src q = Inr d
        \<and> length (a @ b @ c @ d) < 3
        \<longrightarrow> get_real_market_prices src q = Inr None)
   \<and> (\<exists>r. generate_price_recommendation src item_name brand condition retail_price
              item_cost use_live_data = Inr r)
   \<and> ((\<exists>e. get_real_market_prices src (search_query brand item_name) = Inl e)
        \<or> get_real_market_prices src (search_query brand item_name) = Inr None
        \<longrightarrow> (\<exists>r bt. generate_price_recommendation src item_name brand condition
                        retail_price item_cost use_live_data = Inr r
               \<and> market_data r = None
               \<and> price_branch None retail_price condition = Inr (bt, data_source r)
               \<and> estimates r = cost_floor item_cost bt
               \<and> (data_source r = ''estimated from retail''
                    \<or> data_source r = ''default estimate'')
               \<and> map fst (platforms r) = [''poshmark'', ''depop'', ''mercari'', ''ebay'']))"
proof -
  let ?q = "search_query brand item_name"
  have p1: "summarize ls = Inr None" if "length ls < 3"
    using that by (rule summarize_short)
  have p2: "get_real_market_prices src q = Inr None"
    if "scrape_ebay_sold src q = Inr a \<and> scrape_poshmark_sold src q = Inr b
        \<and> scrape_mercari_sold src q = Inr c \<and> scrape_depop_sold src q = Inr d
        \<and> length (a @ b @ c @ d) < 3"
  proof -
    from that have "get_real_market_prices src q = summarize (a @ b @ c @ d)"
      by (simp add: get_real_market_prices_eq)
    with that show ?thesis by (simp only: summarize_short)
  qed
  obtain bt tag where
    "price_branch (fetch_real_prices src use_live_data ?q) retail_price condition
       = Inr (bt, tag)"
    using price_branch_returns by blast
  from generate_eq [OF this, of item_cost]
  have p3: "\<exists>r. generate_price_recommendation src item_name brand condition retail_price
              item_cost use_live_data = Inr r"
    by (elim exE conjE) (rule exI)
  have p4: "\<exists>r bt. generate_price_recommendation src item_name brand condition
                        retail_price item_cost use_live_data = Inr r
               \<and> market_data r = None
               \<and> price_branch None retail_price condition = Inr (bt, data_source r)
               \<and> estimates r = cost_floor item_cost bt
               \<and> (data_source r = ''estimated from retail''
                    \<or> data_source r = ''default estimate'')
               \<and> map fst (platforms r) = [''poshmark'', ''depop'', ''mercari'', ''ebay'']"
    if "(\<exists>e. get_real_market_prices src ?q = Inl e)
        \<or> get_real_market_prices src ?q = Inr None"
  proof -
    from that have none: "fetch_real_prices src use_live_data ?q = None"
      by (auto simp: fetch_real_prices_def)
    obtain bt tag where pb: "price_branch None retail_price condition = Inr (bt, tag)"
      using price_branch_returns by blast
    then have "price_branch (fetch_real_prices src use_live_data ?q) retail_price condition
         = Inr (bt, tag)"
      by (simp only: none)
    from generate_eq [OF this, of item_cost] obtain r where
      r: "generate_price_recommendation src item_name brand condition
            retail_price item_cost use_live_data = Inr r"
      and t: "data_source r = tag" and e: "estimates r = cost_floor item_cost bt"
      and m: "market_data r = fetch_real_prices src use_live_data ?q"
      and n: "map fst (platforms r) = [''poshmark'', ''depop'', ''mercari'', ''ebay'']"
      by (elim exE conjE)
    from m none have m': "market_data r = None" by (simp only:)
    from pb t have pb': "price_branch None retail_price condition = Inr (bt, data_source r)"
      by (simp only:)
    from price_branch_no_data_tag [OF pb] t
    have tag: "data_source r = ''estimated from retail''
                    \<or> data_source r = ''default estimate''"
      by (simp only:)
    show ?thesis
      by (rule exI [of _ r], rule exI [of _ bt], intro conjI)
         (rule r, rule m', rule pb', rule e, rule tag, rule n)
  qed
  show ?thesis
  proof (intro conjI impI)
    assume "length ls < 3"
    then show "summarize ls = Inr None" by (rule p1)
  next
    assume "scrape_ebay_sold src q = Inr a \<and> scrape_poshmark_sold src q = Inr b
        \<and> scrape_mercari_sold src q = Inr c \<and> scrape_depop_sold src q = Inr d
        \<and> length (a @ b @ c @ d) < 3"
    then show "get_real_market_prices src q = Inr None" by (rule p2)
  next
    show "\<exists>r. generate_price_recommendation src item_name brand condition retail_price
              item_cost use_live_data = Inr r"
      by (rule p3)
  next
    assume "(\<exists>e. get_real_market_prices src ?q = Inl e)
        \<or> get_real_market_prices src ?q = Inr None"
    then show "\<exists>r bt. generate_price_recommendation src item_name brand condition
                        retail_price item_cost use_live_data = Inr r
               \<and> market_data r = None
               \<and> price_branch None retail_price condition = Inr (bt, data_source r)
               \<and> estimates r = cost_floor item_cost bt
               \<and> (data_source r = ''estimated from retail''
                    \<or> data_source r = ''default estimate'')
               \<and> map fst (platforms r) = [''poshmark'', ''depop'', ''mercari'', ''ebay'']"
      by (rule p4)
  qed
qed

text \<open>
  Claim C5 on a source with two listings and on a source whose scraper raises.
\<close>

theorem degrades_without_live_data_witness:
  "length (map sold_at [10, 12]) < 3
   \<and> summarize (map sold_at [10, 12]) = Inr None
   \<and> get_real_market_prices (source_of [10, 12]) ''boots'' = Inr None
   \<and> get_real_market_prices failing_source (search_query [] ''boots'') = Inl SourceError
   \<and> (\<exists>r. generate_price_recommendation failing_source ''boots'' [] ''good'' (Some 200)
              0 True = Inr r
          \<and> market_data r = None
          \<and> (data_source r = ''estimated from retail''
               \<or> data_source r = ''default estimate''))"
proof -
  have h1: "length (map sold_at [10, 12]) < 3" by simp
  have h2: "scrape_ebay_sold (source_of [10, 12]) ''boots'' = Inr (map sold_at [10, 12])
        \<and> scrape_poshmark_sold (source_of [10, 12]) ''boots'' = Inr []
        \<and> scrape_mercari_sold (source_of [10, 12]) ''boots'' = Inr []
        \<and> scrape_depop_sold (source_of [10, 12]) ''boots'' = Inr []
        \<and> length (map sold_at [10, 12] @ [] @ [] @ []) < 3"
    by (simp add: source_of_def)
  have h3: "get_real_market_prices failing_source (search_query [] ''boots'')
        = Inl SourceError"
    by (simp add: get_real_market_prices_def failing_source_def)
  then have h3': "(\<exists>e. get_real_market_prices failing_source (search_query [] ''boots'') = Inl e)
        \<or> get_real_market_prices failing_source (search_query [] ''boots'') = Inr None"
    by blast
  note few = degrades_without_live_data
    [where ls = "map sold_at [10, 12]" and src = "source_of [10, 12]" and q = "''boots''"
       and a = "map sold_at [10, 12]" and b = "[]" and c = "[]" and d = "[]"]
  note fail = degrades_without_live_data
    [where src = failing_source and item_name = "''boots''" and brand = "[]"
       and condition = "''good''" and retail_price = "Some 200" and item_cost = 0
       and use_live_data = True]
  from few h1 have a: "summarize (map sold_at [10, 12]) = Inr None" by blast
  from few h2 have b: "get_real_market_prices (source_of [10, 12]) ''boots'' = Inr None"
    by blast
  from fail h3' have c: "\<exists>r. generate_price_recommendation failing_source ''boots'' []
              ''good'' (Some 200) 0 True = Inr r
          \<and> market_data r = None
          \<and> (data_source r = ''estimated from retail''
               \<or> data_source r = ''default estimate'')"
    by blast
  from h1 a b h3 c show ?thesis by blast
qed



end
